theory Spec2Isabelle
  imports Main "HOL-Library.Sublist"
begin

section \<open>Python values and the string operations the converter uses\<close>

text \<open>
  The converter works on what \<^verbatim>\<open>yaml.safe_load\<close> returns: nested dictionaries, lists,
  sets and scalars. A dictionary is an association list in insertion order, read with
  \<open>map_of\<close>; its keys are strings. A set (the tag \<^verbatim>\<open>!!set\<close>) is the list of its elements
  in the order in which the running interpreter iterates it: for a set of strings that
  order follows the hash seed of the run, so one document can load as several values
  that differ in the order of a set. Floats, dates and byte strings are left out. Text
  is ASCII: a \<open>char\<close> is one code point below 128. Every operation of Python that can
  raise is a function into \<open>py_error + 'a\<close>.
\<close>

datatype yaml =
    YNone
  | YBool bool
  | YInt int
  | YStr string
  | YList "yaml list"
  | YDict "(string \<times> yaml) list"
  | YSet "yaml list"

datatype py_error = TypeError | AttributeError | IndexError | KeyError

definition bindE :: "'e + 'a \<Rightarrow> ('a \<Rightarrow> 'e + 'b) \<Rightarrow> 'e + 'b" where
  "bindE m f = (case m of Inl e \<Rightarrow> Inl e | Inr x \<Rightarrow> f x)"

text \<open>\<^verbatim>\<open>d.get(k, default)\<close> on a dictionary.\<close>

definition dict_get :: "(string \<times> yaml) list \<Rightarrow> string \<Rightarrow> yaml \<Rightarrow> yaml" where
  "dict_get d k dflt = (case map_of d k of None \<Rightarrow> dflt | Some v \<Rightarrow> v)"

text \<open>
  \<^verbatim>\<open>k in v\<close> for a string \<open>k\<close>: substring test on a string, membership on a list or
  a set, key test on a dictionary, \<^verbatim>\<open>TypeError\<close> on \<^verbatim>\<open>None\<close>, a number or a boolean.
\<close>

fun py_in :: "string \<Rightarrow> yaml \<Rightarrow> py_error + bool" where
  "py_in k (YStr s) = Inr (sublist k s)"
| "py_in k (YList xs) = Inr (YStr k \<in> set xs)"
| "py_in k (YDict d) = Inr (map_of d k \<noteq> None)"
| "py_in k (YSet xs) = Inr (YStr k \<in> set xs)"
| "py_in k YNone = Inl TypeError"
| "py_in k (YBool b) = Inl TypeError"
| "py_in k (YInt n) = Inl TypeError"

text \<open>\<^verbatim>\<open>v[k]\<close> for a string \<open>k\<close>: only a dictionary can be indexed by a string.\<close>

fun py_getitem :: "yaml \<Rightarrow> string \<Rightarrow> py_error + yaml" where
  "py_getitem (YDict d) k = (case map_of d k of None \<Rightarrow> Inl KeyError | Some v \<Rightarrow> Inr v)"
| "py_getitem YNone k = Inl TypeError"
| "py_getitem (YBool b) k = Inl TypeError"
| "py_getitem (YInt n) k = Inl TypeError"
| "py_getitem (YStr s) k = Inl TypeError"
| "py_getitem (YList xs) k = Inl TypeError"
| "py_getitem (YSet xs) k = Inl TypeError"

text \<open>\<^verbatim>\<open>s.replace(old, new)\<close>: leftmost, non-overlapping occurrences.\<close>

fun replace_from :: "string \<Rightarrow> string \<Rightarrow> string \<Rightarrow> string" where
  "replace_from old new [] = []"
| "replace_from old new (c # cs) =
     (if old \<noteq> [] \<and> prefix old (c # cs)
      then new @ replace_from old new (drop (length old) (c # cs))
      else c # replace_from old new cs)"

definition py_replace :: "string \<Rightarrow> string \<Rightarrow> string \<Rightarrow> string" where
  "py_replace old new s =
     (if old = [] then new @ concat (map (\<lambda>c. c # new) s) else replace_from old new s)"

text \<open>
  \<^verbatim>\<open>s.split(sep)\<close> for a non-empty separator (both call sites pass a literal; Python
  raises on the empty separator, which no call here can pass).
\<close>

fun split_from :: "string \<Rightarrow> string \<Rightarrow> string \<Rightarrow> string list" where
  "split_from sep cur [] = [cur]"
| "split_from sep cur (c # cs) =
     (if sep \<noteq> [] \<and> prefix sep (c # cs)
      then cur # split_from sep [] (drop (length sep) (c # cs))
      else split_from sep (cur @ [c]) cs)"

definition py_split :: "string \<Rightarrow> string \<Rightarrow> string list" where
  "py_split sep s = split_from sep [] s"

text \<open>\<^verbatim>\<open>sep.join(xs)\<close>.\<close>

fun py_join :: "string \<Rightarrow> string list \<Rightarrow> string" where
  "py_join sep [] = []"
| "py_join sep [x] = x"
| "py_join sep (x # y # ys) = x @ sep @ py_join sep (y # ys)"

text \<open>
  \<^verbatim>\<open>s.strip()\<close>: the ASCII characters for which \<^verbatim>\<open>str.isspace\<close> holds are 9 to 13,
  28 to 31 and the blank.
\<close>

definition is_space :: "char \<Rightarrow> bool" where
  "is_space c = (c \<in> set [CHR 0x09, CHR 0x0A, CHR 0x0B, CHR 0x0C, CHR 0x0D,
                          CHR 0x1C, CHR 0x1D, CHR 0x1E, CHR 0x1F, CHR 0x20])"

definition py_strip :: "string \<Rightarrow> string" where
  "py_strip s = rev (dropWhile is_space (rev (dropWhile is_space s)))"

text \<open>\<^verbatim>\<open>s.lower()\<close>, \<^verbatim>\<open>s.upper()\<close>, \<^verbatim>\<open>s.capitalize()\<close> and \<^verbatim>\<open>s.isdigit()\<close>.\<close>

definition lower_char :: "char \<Rightarrow> char" where
  "lower_char c =
     (case map_of (zip ''ABCDEFGHIJKLMNOPQRSTUVWXYZ'' ''abcdefghijklmnopqrstuvwxyz'') c of
        Some l \<Rightarrow> l | None \<Rightarrow> c)"

definition upper_char :: "char \<Rightarrow> char" where
  "upper_char c =
     (case map_of (zip ''abcdefghijklmnopqrstuvwxyz'' ''ABCDEFGHIJKLMNOPQRSTUVWXYZ'') c of
        Some u \<Rightarrow> u | None \<Rightarrow> c)"

definition py_lower :: "string \<Rightarrow> string" where
  "py_lower s = map lower_char s"

definition py_upper :: "string \<Rightarrow> string" where
  "py_upper s = map upper_char s"

definition py_capitalize :: "string \<Rightarrow> string" where
  "py_capitalize s = (case s of [] \<Rightarrow> [] | c # cs \<Rightarrow> upper_char c # map lower_char cs)"

definition py_isdigit :: "string \<Rightarrow> bool" where
  "py_isdigit s = (s \<noteq> [] \<and> list_all (\<lambda>c. c \<in> set ''0123456789'') s)"

text \<open>Truth value of a value in a condition.\<close>

fun truthy :: "yaml \<Rightarrow> bool" where
  "truthy YNone = False"
| "truthy (YBool b) = b"
| "truthy (YInt n) = (n \<noteq> 0)"
| "truthy (YStr s) = (s \<noteq> [])"
| "truthy (YList xs) = (xs \<noteq> [])"
| "truthy (YDict d) = (d \<noteq> [])"
| "truthy (YSet xs) = (xs \<noteq> [])"

text \<open>
  \<^verbatim>\<open>str(v)\<close>, as an f-string formats a value: a string is itself, any other value is
  its \<^verbatim>\<open>repr\<close>. A set is written in its iteration order, the empty one as \<^verbatim>\<open>set()\<close>.
\<close>

definition digit_char :: "nat \<Rightarrow> char" where
  "digit_char n = ''0123456789'' ! n"

fun str_nat :: "nat \<Rightarrow> string" where
  "str_nat n = (if n < 10 then [digit_char n] else str_nat (n div 10) @ [digit_char (n mod 10)])"

declare str_nat.simps [simp del]

definition str_int :: "int \<Rightarrow> string" where
  "str_int i = (if i < 0 then ''-'' @ str_nat (nat (- i)) else str_nat (nat i))"

definition hex_char :: "nat \<Rightarrow> char" where
  "hex_char n = ''0123456789abcdef'' ! n"

definition repr_char :: "char \<Rightarrow> char \<Rightarrow> string" where
  "repr_char quote c =
     (let n = (of_char c :: nat) in
      if c = quote \<or> c = CHR 0x5C then [CHR 0x5C, c]
      else if c = CHR 0x09 then [CHR 0x5C, CHR ''t'']
      else if c = CHR 0x0A then [CHR 0x5C, CHR ''n'']
      else if c = CHR 0x0D then [CHR 0x5C, CHR ''r'']
      else if n < 32 \<or> n = 127
        then [CHR 0x5C, CHR ''x'', hex_char (n div 16), hex_char (n mod 16)]
      else [c])"

definition repr_str :: "string \<Rightarrow> string" where
  "repr_str s =
     (let quote = (if CHR 0x27 \<in> set s \<and> CHR 0x22 \<notin> set s then CHR 0x22 else CHR 0x27)
      in [quote] @ concat (map (repr_char quote) s) @ [quote])"

fun py_repr :: "yaml \<Rightarrow> string" where
  "py_repr YNone = ''None''"
| "py_repr (YBool b) = (if b then ''True'' else ''False'')"
| "py_repr (YInt n) = str_int n"
| "py_repr (YStr s) = repr_str s"
| "py_repr (YList xs) = ''['' @ py_join '', '' (map py_repr xs) @ '']''"
| "py_repr (YDict d) =
     ''{'' @ py_join '', '' (map (\<lambda>(k, v). repr_str k @ '': '' @ py_repr v) d) @ ''}''"
| "py_repr (YSet xs) =
     (if xs = [] then ''set()'' else ''{'' @ py_join '', '' (map py_repr xs) @ ''}'')"

definition py_str :: "yaml \<Rightarrow> string" where
  "py_str v = (case v of YStr s \<Rightarrow> s | _ \<Rightarrow> py_repr v)"

text \<open>
  \<^verbatim>\<open>for x in v\<close>: the elements of a list or a set, the keys of a dictionary, the
  characters of a string; anything else is not iterable.
\<close>

fun py_iter :: "yaml \<Rightarrow> py_error + yaml list" where
  "py_iter (YList xs) = Inr xs"
| "py_iter (YDict d) = Inr (map (\<lambda>kv. YStr (fst kv)) d)"
| "py_iter (YSet xs) = Inr xs"
| "py_iter (YStr s) = Inr (map (\<lambda>c. YStr [c]) s)"
| "py_iter YNone = Inl TypeError"
| "py_iter (YBool b) = Inl TypeError"
| "py_iter (YInt n) = Inl TypeError"

text \<open>A list comprehension whose body can raise: the first error ends it.\<close>

fun mapE :: "('a \<Rightarrow> 'e + 'b) \<Rightarrow> 'a list \<Rightarrow> 'e + 'b list" where
  "mapE f [] = Inr []"
| "mapE f (x # xs) =
     (case f x of
        Inl e \<Rightarrow> Inl e
      | Inr y \<Rightarrow> (case mapE f xs of Inl e \<Rightarrow> Inl e | Inr ys \<Rightarrow> Inr (y # ys)))"

abbreviation nl :: string where
  "nl \<equiv> [CHR 0x0A]"

abbreviation dq :: string where
  "dq \<equiv> [CHR 0x22]"

section \<open>Format classifier\<close>

datatype family = R | I | S | B | U | J | C | V

text \<open>One arm of the chain: \<^verbatim>\<open>'/X/' in inherit_path or 'X-' in inherit_path\<close>.\<close>

definition has_marker :: "string \<Rightarrow> string \<Rightarrow> yaml \<Rightarrow> py_error + bool" where
  "has_marker seg pre inherit_path =
     bindE (py_in seg inherit_path) (\<lambda>a. if a then Inr True else py_in pre inherit_path)"

text \<open>The \<^verbatim>\<open>if/elif\<close> chain over the six families; \<open>None\<close> when no arm fires.\<close>

definition scan_inherits :: "yaml \<Rightarrow> py_error + family option" where
  "scan_inherits inherit_path =
     bindE (has_marker ''/R/'' ''R-'' inherit_path) (\<lambda>r. if r then Inr (Some R) else
     bindE (has_marker ''/I/'' ''I-'' inherit_path) (\<lambda>i. if i then Inr (Some I) else
     bindE (has_marker ''/S/'' ''S-'' inherit_path) (\<lambda>s. if s then Inr (Some S) else
     bindE (has_marker ''/B/'' ''B-'' inherit_path) (\<lambda>b. if b then Inr (Some B) else
     bindE (has_marker ''/U/'' ''U-'' inherit_path) (\<lambda>u. if u then Inr (Some U) else
     bindE (has_marker ''/J/'' ''J-'' inherit_path) (\<lambda>j. if j then Inr (Some J) else
     Inr None))))))"

text \<open>
  The first block of \<^verbatim>\<open>get_instruction_format\<close>: the reference is
  \<^verbatim>\<open>format_data['$inherits']\<close>, or its element 0 when that is a list.
\<close>

definition inherits_family :: "yaml \<Rightarrow> py_error + family option" where
  "inherits_family format_data =
     bindE (py_in ''$inherits'' format_data) (\<lambda>present.
       if present then
         bindE (py_getitem format_data ''$inherits'') (\<lambda>inh.
         bindE (case inh of
                  YList xs \<Rightarrow> (case xs of [] \<Rightarrow> Inl IndexError | x # _ \<Rightarrow> Inr x)
                | _ \<Rightarrow> Inr inh) scan_inherits)
       else Inr None)"

text \<open>
  The second block: \<^verbatim>\<open>len(enc['match'].replace('-', '')) == 16\<close> when the record
  has an \<^verbatim>\<open>encoding\<close> with a \<^verbatim>\<open>match\<close>.
\<close>

definition match_is_16 :: "(string \<times> yaml) list \<Rightarrow> py_error + bool" where
  "match_is_16 udb_data =
     (case map_of udb_data ''encoding'' of
        None \<Rightarrow> Inr False
      | Some enc \<Rightarrow>
          bindE (py_in ''match'' enc) (\<lambda>present.
            if present then
              bindE (py_getitem enc ''match'') (\<lambda>match_pattern.
                case match_pattern of
                  YStr m \<Rightarrow> Inr (length (py_replace ''-'' '''' m) = 16)
                | _ \<Rightarrow> Inl AttributeError)
            else Inr False))"

text \<open>
  The third block:
  \<^verbatim>\<open>'vm' in assembly and ('vs1' in assembly or 'vs2' in assembly)\<close>.
\<close>

definition looks_vector :: "yaml \<Rightarrow> py_error + bool" where
  "looks_vector assembly =
     bindE (py_in ''vm'' assembly) (\<lambda>vm.
       if vm then
         bindE (py_in ''vs1'' assembly) (\<lambda>vs1.
           if vs1 then Inr True else py_in ''vs2'' assembly)
       else Inr False)"

definition get_instruction_format :: "(string \<times> yaml) list \<Rightarrow> py_error + family" where
  "get_instruction_format udb_data =
     (let format_data = dict_get udb_data ''format'' (YDict []) in
      bindE (inherits_family format_data) (\<lambda>fam.
        case fam of
          Some f \<Rightarrow> Inr f
        | None \<Rightarrow>
            bindE (match_is_16 udb_data) (\<lambda>compressed.
              if compressed then Inr C
              else
                let assembly = dict_get udb_data ''assembly'' (YStr '''') in
                bindE (looks_vector assembly) (\<lambda>vector.
                  if vector then Inr V else Inr R))))"

section \<open>Encoding extractor\<close>

text \<open>The dictionary \<^verbatim>\<open>encoding\<close> that the extractor builds and the renderer reads.\<close>

type_synonym encoding = "string \<rightharpoonup> yaml"

text \<open>The body of the loop over the opcode field names.\<close>

definition opcode_field :: "yaml \<Rightarrow> encoding \<Rightarrow> string \<Rightarrow> py_error + encoding" where
  "opcode_field opcodes encoding field =
     bindE (py_in field opcodes) (\<lambda>present.
       if present then
         bindE (py_getitem opcodes field) (\<lambda>v.
           case v of
             YDict d \<Rightarrow>
               (case map_of d ''value'' of
                  Some x \<Rightarrow> Inr (encoding(field \<mapsto> x))
                | None \<Rightarrow> Inr encoding)
           | YStr s \<Rightarrow> Inr (encoding(field \<mapsto> YStr s))
           | _ \<Rightarrow> Inr encoding)
       else Inr encoding)"

fun opcode_fields :: "yaml \<Rightarrow> encoding \<Rightarrow> string list \<Rightarrow> py_error + encoding" where
  "opcode_fields opcodes encoding [] = Inr encoding"
| "opcode_fields opcodes encoding (field # fields) =
     (case opcode_field opcodes encoding field of
        Inl e \<Rightarrow> Inl e
      | Inr encoding' \<Rightarrow> opcode_fields opcodes encoding' fields)"

definition extract_encoding_info :: "yaml \<Rightarrow> py_error + encoding" where
  "extract_encoding_info format_data =
     bindE (py_in ''opcodes'' format_data) (\<lambda>has_opcodes.
     bindE (if has_opcodes then
              bindE (py_getitem format_data ''opcodes'') (\<lambda>opcodes.
                opcode_fields opcodes Map.empty
                  [''funct7'', ''funct3'', ''funct6'', ''funct2'', ''opcode''])
            else Inr Map.empty) (\<lambda>encoding.
     bindE (py_in ''encoding'' format_data) (\<lambda>has_encoding.
       if has_encoding then
         bindE (py_getitem format_data ''encoding'') (\<lambda>enc_data.
         bindE (py_in ''match'' enc_data) (\<lambda>has_match.
         bindE (if has_match then
                  bindE (py_getitem enc_data ''match'') (\<lambda>m.
                    Inr (encoding(''match'' \<mapsto> m)))
                else Inr encoding) (\<lambda>encoding1.
         bindE (py_in ''variables'' enc_data) (\<lambda>has_variables.
           if has_variables then
             bindE (py_getitem enc_data ''variables'') (\<lambda>vs.
               Inr (encoding1(''variables'' \<mapsto> vs)))
           else Inr encoding1))))
       else Inr encoding)))"

text \<open>
  The encoding that \<^verbatim>\<open>convert_instruction\<close> renders from: the one extracted from
  \<^verbatim>\<open>format\<close>, updated with the one extracted from the top-level \<^verbatim>\<open>encoding\<close>.
\<close>

definition merged_encoding :: "(string \<times> yaml) list \<Rightarrow> py_error + encoding" where
  "merged_encoding udb_data =
     (let format_data = dict_get udb_data ''format'' (YDict []) in
      bindE (extract_encoding_info format_data) (\<lambda>encoding.
        case map_of udb_data ''encoding'' of
          Some enc \<Rightarrow>
            bindE (extract_encoding_info (YDict [(''encoding'', enc)])) (\<lambda>top.
              Inr (encoding ++ top))
        | None \<Rightarrow> Inr encoding))"

section \<open>Operand parser\<close>

text \<open>
  The body of the loop over the tokens; the state is the pair of lists
  \<^verbatim>\<open>(output, inp)\<close>.
\<close>

definition parse_part :: "family \<Rightarrow> string list \<times> string list \<Rightarrow> string
    \<Rightarrow> string list \<times> string list" where
  "parse_part inst_for st part =
     (case st of (output, inp) \<Rightarrow>
      if prefix ''v'' part \<and> inst_for = V then
        (if part = ''vd'' then (output @ [''VR:$vd''], inp)
         else if prefix ''vs'' part then (output, inp @ [''VR:$'' @ part])
         else if part = ''vm'' then (output, inp @ [''VMaskOp:$vm''])
         else (output, inp))
      else if prefix ''x'' part \<or> part \<in> set [''rd'', ''rs1'', ''rs2'', ''xs1'', ''xd''] then
        (if part \<in> set [''xd'', ''rd''] then (output @ [''GPR:$rd''], inp)
         else if part \<in> set [''xs1'', ''rs1''] then (output, inp @ [''GPR:$rs1''])
         else if part \<in> set [''xs2'', ''rs2''] then (output, inp @ [''GPR:$rs2''])
         else (output, inp @ [''GPR:$'' @ part]))
      else if sublist ''imm'' (py_lower part) \<or> py_isdigit part then
        (if inst_for = I then (output, inp @ [''simm12:$imm''])
         else if inst_for = S then (output, inp @ [''simm12:$imm''])
         else if inst_for = B then (output, inp @ [''simm13_lsb0:$imm''])
         else if inst_for = U then (output, inp @ [''uimm20:$imm''])
         else if inst_for = J then (output, inp @ [''simm21_lsb0:$imm''])
         else (output, inp @ [''simm12:$imm'']))
      else (output, inp))"

definition parse_assembly_operands :: "yaml \<Rightarrow> family
    \<Rightarrow> py_error + (string list \<times> string list)" where
  "parse_assembly_operands assembly_str inst_for =
     (if \<not> truthy assembly_str then Inr ([], [])
      else case assembly_str of
        YStr s \<Rightarrow>
          (let parts = map py_strip (py_split '','' s)
           in Inr (foldl (parse_part inst_for) ([], []) parts))
      | _ \<Rightarrow> Inl AttributeError)"

section \<open>Record renderer\<close>

text \<open>The fallback block of \<^verbatim>\<open>convert_instruction\<close>, run on what the parser returned.\<close>

definition default_operands :: "family \<Rightarrow> string list \<times> string list
    \<Rightarrow> string list \<times> string list" where
  "default_operands inst_for parsed =
     (case parsed of (output, inp) \<Rightarrow>
      if output = [] \<and> inp = [] then
        (let output1 = (if inst_for \<in> set [R, I, U, J] then [''GPR:$rd''] else output) in
         if inst_for = R then (output1, [''GPR:$rs1'', ''GPR:$rs2''])
         else if inst_for = I then (output1, [''GPR:$rs1'', ''simm12:$imm''])
         else if inst_for \<in> set [S, B]
           then ([], [''GPR:$rs1'', ''GPR:$rs2'', ''simm12:$imm''])
         else (output1, inp))
      else (output, inp))"

text \<open>\<^verbatim>\<open>f"${op.split(':$')[1]}"\<close> and the assembly-format string built from it.\<close>

definition symbolic_name :: "string \<Rightarrow> py_error + string" where
  "symbolic_name op =
     (case py_split '':$'' op of
        a # b # rest \<Rightarrow> Inr (''$'' @ b)
      | _ \<Rightarrow> Inl IndexError)"

definition asm_format_of :: "string list \<Rightarrow> string list \<Rightarrow> py_error + string" where
  "asm_format_of output inp =
     bindE (mapE symbolic_name output) (\<lambda>outs.
     bindE (mapE symbolic_name inp) (\<lambda>ins.
       Inr (py_join '', '' (outs @ ins))))"

text \<open>The three groups of constraint lines.\<close>

definition match_constraint :: "encoding \<Rightarrow> string list" where
  "match_constraint encoding =
     (case encoding ''match'' of
        Some m \<Rightarrow> [''  let EncodingPattern = '' @ dq @ py_str m @ dq @ '';'']
      | None \<Rightarrow> [])"

definition field_constraint :: "encoding \<Rightarrow> string \<Rightarrow> string list" where
  "field_constraint encoding field =
     (case encoding field of
        Some (YStr v) \<Rightarrow>
          (if prefix ''0b'' v
           then [''  let '' @ py_capitalize field @ '' = '' @ v @ '';'']
           else [])
      | _ \<Rightarrow> [])"

definition variable_constraint :: "yaml \<Rightarrow> py_error + string list" where
  "variable_constraint var =
     (case var of
        YDict d \<Rightarrow>
          (let var_name = dict_get d ''name'' (YStr '''');
               location = dict_get d ''location'' (YStr '''')
           in if truthy var_name \<and> truthy location
              then Inr [''  // Variable '' @ py_str var_name @ '' at bits '' @ py_str location]
              else Inr [])
      | _ \<Rightarrow> Inl AttributeError)"

definition variable_constraints :: "encoding \<Rightarrow> py_error + string list" where
  "variable_constraints encoding =
     (case encoding ''variables'' of
        Some vs \<Rightarrow>
          bindE (py_iter vs) (\<lambda>vars.
          bindE (mapE variable_constraint vars) (\<lambda>ls. Inr (concat ls)))
      | None \<Rightarrow> Inr [])"

text \<open>The normalisations shared by the three renderers.\<close>

definition stripped :: "yaml \<Rightarrow> py_error + string" where
  "stripped v = (case v of YStr s \<Rightarrow> Inr (py_strip s) | _ \<Rightarrow> Inl AttributeError)"

definition clean_description :: "string \<Rightarrow> string" where
  "clean_description description =
     py_strip (py_replace ''  '' '' '' (py_replace nl '' '' description))"

definition truncate_description :: "string \<Rightarrow> string" where
  "truncate_description desc_clean =
     (if length desc_clean > 100 then take 97 desc_clean @ ''...'' else desc_clean)"

definition tablegen_name_of :: "yaml \<Rightarrow> py_error + string" where
  "tablegen_name_of name =
     (case name of
        YStr n \<Rightarrow> Inr (py_replace ''-'' ''_'' (py_replace ''.'' ''_'' (py_upper n)))
      | _ \<Rightarrow> Inl AttributeError)"

fun family_letter :: "family \<Rightarrow> string" where
  "family_letter R = ''R''"
| "family_letter I = ''I''"
| "family_letter S = ''S''"
| "family_letter B = ''B''"
| "family_letter U = ''U''"
| "family_letter J = ''J''"
| "family_letter C = ''C''"
| "family_letter V = ''V''"

text \<open>The f-string that \<^verbatim>\<open>convert_instruction\<close> returns.\<close>

definition instruction_text :: "string \<Rightarrow> string \<Rightarrow> string \<Rightarrow> string \<Rightarrow> string
    \<Rightarrow> string \<Rightarrow> string \<Rightarrow> family \<Rightarrow> string \<Rightarrow> string" where
  "instruction_text tablegen_name outputs_str inputs_str name asm_format long_name
       desc_clean inst_for constraint_str =
     nl @ ''def '' @ tablegen_name @ '' : RISCVInst<'' @ nl @
     ''    (outs '' @ outputs_str @ ''),'' @ nl @
     ''    (ins '' @ inputs_str @ ''),'' @ nl @
     ''    '' @ dq @ name @ dq @ '', '' @ dq @ asm_format @ dq @ '','' @ nl @
     ''    []> {'' @ nl @
     ''  // '' @ long_name @ '': '' @ desc_clean @ nl @
     ''  let Format = '' @ family_letter inst_for @ ''Format;'' @ constraint_str @ nl @
     ''}''"

text \<open>
  The operand lists that are rendered: the parser's, after the fallback. The renderer
  below computes the same pair on its way.
\<close>

definition instruction_operands :: "(string \<times> yaml) list
    \<Rightarrow> py_error + (string list \<times> string list)" where
  "instruction_operands udb_data =
     (let assembly = dict_get udb_data ''assembly'' (YStr '''') in
      bindE (get_instruction_format udb_data) (\<lambda>inst_for.
      bindE (parse_assembly_operands assembly inst_for) (\<lambda>parsed.
        Inr (default_operands inst_for parsed))))"

definition convert_instruction :: "(string \<times> yaml) list \<Rightarrow> py_error + string" where
  "convert_instruction udb_data =
     (let name = dict_get udb_data ''name'' (YStr ''unknown'');
          long_name = dict_get udb_data ''long_name'' name
      in
      bindE (stripped (dict_get udb_data ''description'' (YStr ''''))) (\<lambda>description.
      let assembly = dict_get udb_data ''assembly'' (YStr '''') in
      bindE (get_instruction_format udb_data) (\<lambda>inst_for.
      bindE (merged_encoding udb_data) (\<lambda>encoding.
      bindE (parse_assembly_operands assembly inst_for) (\<lambda>parsed.
      case default_operands inst_for parsed of (output, inp) \<Rightarrow>
      let outputs_str = py_join '', '' output;
          inputs_str = py_join '', '' inp
      in
      bindE (asm_format_of output inp) (\<lambda>asm_format.
      bindE (variable_constraints encoding) (\<lambda>variable_lines.
      let constraints =
            match_constraint encoding @
            concat (map (field_constraint encoding)
              [''opcode'', ''funct3'', ''funct7'', ''funct6'', ''funct2'']) @
            variable_lines;
          constraint_str = (if constraints \<noteq> [] then nl @ py_join nl constraints else []);
          desc_clean = truncate_description (clean_description description)
      in
      bindE (tablegen_name_of name) (\<lambda>tablegen_name.
        Inr (instruction_text tablegen_name outputs_str inputs_str (py_str name)
               asm_format (py_str long_name) desc_clean inst_for constraint_str)))))))))"

definition convert_csr :: "(string \<times> yaml) list \<Rightarrow> py_error + string" where
  "convert_csr udb_data =
     (let name = dict_get udb_data ''name'' (YStr ''unknown'');
          long_name = dict_get udb_data ''long_name'' name;
          address = dict_get udb_data ''address'' (YStr ''0x000'')
      in
      bindE (stripped (dict_get udb_data ''description'' (YStr ''''))) (\<lambda>description.
      let desc_clean = truncate_description (clean_description description) in
      bindE (tablegen_name_of name) (\<lambda>tablegen_name.
        Inr (nl @ ''def '' @ tablegen_name @ '' : RISCVReg<'' @ py_str address @ '', '' @
             dq @ py_str name @ dq @ ''> {'' @ nl @
             ''  // '' @ py_str long_name @ '': '' @ desc_clean @ nl @
             ''}''))))"

definition banner :: string where
  "banner = ''//===----------------------------------------------------------------------===//''"

definition convert_extension :: "(string \<times> yaml) list \<Rightarrow> py_error + string" where
  "convert_extension udb_data =
     (let name = dict_get udb_data ''name'' (YStr ''unknown'');
          long_name = dict_get udb_data ''long_name'' name
      in
      bindE (stripped (dict_get udb_data ''description'' (YStr ''''))) (\<lambda>description.
      let desc_clean = clean_description description in
        Inr (nl @ banner @ nl @
             ''// Extension: '' @ py_str name @ '' - '' @ py_str long_name @ nl @
             ''// '' @ desc_clean @ nl @
             banner @ nl)))"

section \<open>Aggregator\<close>

definition generate_tablegen_header :: string where
  "generate_tablegen_header =
     concat (map (\<lambda>l. l @ nl)
       [''//===-- Generated from RISC-V UDB --------*- tablegen -*-===//'',
        ''// Auto-generated from RISC-V Unified Database'',
        ''//===----------------------------------------------------------------------===//'',
        '''',
        ''include '' @ dq @ ''RISCVInstrFormats.td'' @ dq,
        '''',
        ''// Register Classes'',
        ''def GPR : RegisterClass<'' @ dq @ ''RISCV'' @ dq @ '', [i32], 32, (add'',
        ''  (sequence '' @ dq @ ''X%u'' @ dq @ '', 0, 31)'',
        '')>;'',
        '''',
        ''def VR : RegisterClass<'' @ dq @ ''RISCV'' @ dq @ '', [v64i1, v128i1, v256i1, v512i1, v1024i1], 32, (add'',
        ''  (sequence '' @ dq @ ''V%u'' @ dq @ '', 0, 31)'',
        '')>;'',
        '''',
        ''// Operand Types'',
        ''def simm12 : Operand<i32>;'',
        ''def simm13_lsb0 : Operand<i32>;'',
        ''def simm21_lsb0 : Operand<i32>;'',
        ''def uimm20 : Operand<i32>;'',
        ''def VMaskOp : Operand<i32>;'',
        '''',
        ''//===----------------------------------------------------------------------===//'',
        ''// Generated Content'',
        ''//===----------------------------------------------------------------------===//''])"

text \<open>
  What \<^verbatim>\<open>yaml.safe_load\<close> gave for one file: a parse error with its message, or the
  decoded document. A file has the text of its path (used in diagnostics) and its
  base name (used in the origin marker).
\<close>

datatype loaded = YAMLError string | Document yaml

record udb_file =
  file_path :: string
  file_name :: string
  contents :: loaded

text \<open>
  \<^verbatim>\<open>process_udb_file\<close> returns the rendered text or \<^verbatim>\<open>None\<close>, and prints; the model
  returns the pair of the result and the lines printed. An exception of a renderer is
  not caught here.
\<close>

definition process_udb_file :: "string \<Rightarrow> loaded \<Rightarrow> py_error + (string option \<times> string list)" where
  "process_udb_file input_file l =
     (case l of
        YAMLError e \<Rightarrow> Inr (None, [''Error parsing '' @ input_file @ '': '' @ e])
      | Document udb_data \<Rightarrow>
          (case udb_data of
             YDict d \<Rightarrow>
               if \<not> truthy udb_data
               then Inr (None, [''Skipping '' @ input_file @ '': invalid format''])
               else
                 (let kind = dict_get d ''kind'' (YStr ''unknown'') in
                  if kind = YStr ''instruction''
                    then bindE (convert_instruction d) (\<lambda>t. Inr (Some t, []))
                  else if kind = YStr ''csr''
                    then bindE (convert_csr d) (\<lambda>t. Inr (Some t, []))
                  else if kind = YStr ''extension''
                    then bindE (convert_extension d) (\<lambda>t. Inr (Some t, []))
                  else Inr (None, [''Skipping '' @ input_file @ '': unknown kind '' @
                                   [CHR 0x27] @ py_str kind @ [CHR 0x27]]))
           | _ \<Rightarrow> Inr (None, [''Skipping '' @ input_file @ '': invalid format''])))"

text \<open>
  The loop of the directory branch of \<^verbatim>\<open>main\<close> over the sorted files; the state is
  \<^verbatim>\<open>all_content\<close> and the lines printed so far.
\<close>

fun process_files :: "udb_file list \<Rightarrow> string list \<times> string list
    \<Rightarrow> py_error + (string list \<times> string list)" where
  "process_files [] st = Inr st"
| "process_files (f # fs) st =
     (case process_udb_file (file_path f) (contents f) of
        Inl e \<Rightarrow> Inl e
      | Inr (content, msgs) \<Rightarrow>
          (let all_content = fst st;
               out = snd st @ [''Processing '' @ file_name f @ ''...''] @ msgs
           in case content of
                Some t \<Rightarrow>
                  if t \<noteq> []
                  then process_files fs (all_content @ [''// From '' @ file_name f, t], out)
                  else process_files fs (all_content, out)
              | None \<Rightarrow> process_files fs (all_content, out)))"

text \<open>
  The outcome of a run: the file written (its path and text), if any, and the lines
  printed.
\<close>

record run =
  written :: "(string \<times> string) option"
  printed :: "string list"

text \<open>
  The directory branch of \<^verbatim>\<open>main\<close>. \<open>output_file\<close> is the text of the path
  \<^verbatim>\<open>output_path / "RISCVGenerated.td"\<close>; \<open>files\<close> is \<^verbatim>\<open>sorted(input_path.glob("*.yaml"))\<close>.
\<close>

definition main_directory :: "string \<Rightarrow> udb_file list \<Rightarrow> py_error + run" where
  "main_directory output_file files =
     bindE (process_files files ([], [])) (\<lambda>st.
       case st of (all_content, out) \<Rightarrow>
         if all_content \<noteq> [] then
           Inr \<lparr>written = Some (output_file,
                   generate_tablegen_header @ concat (map (\<lambda>c. c @ nl) all_content)),
                printed = out @ [''Generated '' @ output_file @ '' with '' @
                   str_nat (length all_content div 2) @ '' items'']\<rparr>
         else Inr \<lparr>written = None, printed = out @ [''No content found'']\<rparr>)"

text \<open>The single-file branch of \<^verbatim>\<open>main\<close>.\<close>

definition main_file :: "string \<Rightarrow> udb_file \<Rightarrow> py_error + run" where
  "main_file output_path f =
     bindE (process_udb_file (file_path f) (contents f)) (\<lambda>r.
       case r of (content, msgs) \<Rightarrow>
         (case content of
            Some t \<Rightarrow>
              if t \<noteq> [] then
                Inr \<lparr>written = Some (output_path, generate_tablegen_header @ t),
                     printed = msgs @ [''Generated '' @ output_path]\<rparr>
              else Inr \<lparr>written = None, printed = msgs @ [''No content generated'']\<rparr>
          | None \<Rightarrow> Inr \<lparr>written = None, printed = msgs @ [''No content generated'']\<rparr>))"

section \<open>Notions used in the statements\<close>

text \<open>
  A family marker in a reference text, in the two surface forms of the specification
  (\<^verbatim>\<open>/X/\<close> and \<^verbatim>\<open>X-\<close>), and the first family of the order R, I, S, B, U, J that
  has one. These follow the wording of the specification, not the code; they are
  compared with \<open>scan_inherits\<close> below.
\<close>

definition marked :: "family \<Rightarrow> string \<Rightarrow> bool" where
  "marked f p =
     (sublist (''/'' @ family_letter f @ ''/'') p \<or> sublist (family_letter f @ ''-'') p)"

definition first_marked :: "string \<Rightarrow> family option" where
  "first_marked p = find (\<lambda>f. marked f p) [R, I, S, B, U, J]"

text \<open>
  What the loop body of the extractor stores for the value of a field that is present:
  the \<^verbatim>\<open>value\<close> entry of a mapping, a string itself, nothing otherwise. And the entry
  of the extracted encoding under one field name.
\<close>

definition stored_value :: "yaml \<Rightarrow> yaml option" where
  "stored_value v =
     (case v of YDict d \<Rightarrow> map_of d ''value'' | YStr s \<Rightarrow> Some (YStr s) | _ \<Rightarrow> None)"

definition extracted_field :: "yaml \<Rightarrow> string \<Rightarrow> py_error + yaml option" where
  "extracted_field format_data field =
     bindE (extract_encoding_info format_data) (\<lambda>encoding. Inr (encoding field))"

text \<open>
  A file of a batch, seen alone: what \<^verbatim>\<open>process_udb_file\<close> returns for it, whether it
  renders and to what text, whether its document is a non-empty mapping with a
  \<^verbatim>\<open>kind\<close> outside the three known ones, and what it adds to \<^verbatim>\<open>all_content\<close> and to the
  lines printed.
\<close>

definition file_result :: "udb_file \<Rightarrow> py_error + (string option \<times> string list)" where
  "file_result f = process_udb_file (file_path f) (contents f)"

definition renders :: "udb_file \<Rightarrow> bool" where
  "renders f = (case file_result f of Inr (Some t, msgs) \<Rightarrow> True | _ \<Rightarrow> False)"

definition rendered_text :: "udb_file \<Rightarrow> string" where
  "rendered_text f = (case file_result f of Inr (Some t, msgs) \<Rightarrow> t | _ \<Rightarrow> [])"

definition unknown_kind :: "udb_file \<Rightarrow> bool" where
  "unknown_kind f =
     (case contents f of
        Document (YDict d) \<Rightarrow>
          d \<noteq> [] \<and>
          dict_get d ''kind'' (YStr ''unknown'') \<notin>
            set [YStr ''instruction'', YStr ''csr'', YStr ''extension'']
      | _ \<Rightarrow> False)"

definition kind_text :: "udb_file \<Rightarrow> string" where
  "kind_text f =
     (case contents f of
        Document (YDict d) \<Rightarrow> py_str (dict_get d ''kind'' (YStr ''unknown''))
      | _ \<Rightarrow> [])"

definition file_blocks :: "udb_file \<Rightarrow> string list" where
  "file_blocks f =
     (case file_result f of
        Inr (Some t, msgs) \<Rightarrow> if t \<noteq> [] then [''// From '' @ file_name f, t] else []
      | _ \<Rightarrow> [])"

definition file_lines :: "udb_file \<Rightarrow> string list" where
  "file_lines f =
     [''Processing '' @ file_name f @ ''...''] @
     (case file_result f of Inr (content, msgs) \<Rightarrow> msgs | Inl e \<Rightarrow> [])"




section \<open>Basic facts\<close>

lemma bindE_Inl: "bindE (Inl e) f = Inl e"
  by (simp add: bindE_def)

lemma bindE_Inr: "bindE (Inr x) f = f x"
  by (simp add: bindE_def)

subsection \<open>Strings\<close>

lemma replace_from_single_empty:
  "replace_from [c] [] s = filter (\<lambda>x. x \<noteq> c) s"
  by (induction s) auto

lemma py_replace_dash: "py_replace ''-'' '''' m = filter (\<lambda>c. c \<noteq> CHR ''-'') m"
  by (simp add: py_replace_def replace_from_single_empty)

section \<open>The classifier\<close>

lemma has_marker_text:
  "has_marker a b (YStr p) = Inr (sublist a p \<or> sublist b p)"
  by (simp add: has_marker_def bindE_def)

lemma scan_inherits_text: "scan_inherits (YStr p) = Inr (first_marked p)"
  by (simp add: scan_inherits_def has_marker_text bindE_Inr first_marked_def marked_def)

lemma inherits_family_absent:
  "map_of fd ''$inherits'' = None \<Longrightarrow> inherits_family (YDict fd) = Inr None"
  by (simp add: inherits_family_def bindE_Inr)

lemma inherits_family_text:
  assumes "map_of fd ''$inherits'' = Some (YStr p) \<or>
           map_of fd ''$inherits'' = Some (YList (YStr p # rest))"
  shows "inherits_family (YDict fd) = Inr (first_marked p)"
  using assms by (auto simp add: inherits_family_def bindE_Inr scan_inherits_text)

lemma first_marked_None:
  "first_marked p = None \<longleftrightarrow>
   (\<forall>x \<in> set ''RISBUJ''. \<not> sublist (''/'' @ [x] @ ''/'') p \<and> \<not> sublist ([x] @ ''-'') p)"
  by (auto simp add: first_marked_def marked_def find_None_iff)

lemma match_is_16_text:
  assumes "map_of udb_data ''encoding'' = Some (YDict enc)"
      and "map_of enc ''match'' = Some (YStr m)"
  shows "match_is_16 udb_data = Inr (length (filter (\<lambda>c. c \<noteq> CHR ''-'') m) = 16)"
  using assms by (simp add: match_is_16_def bindE_Inr py_replace_dash)

lemma classify_after_inherits:
  assumes "inherits_family (dict_get udb_data ''format'' (YDict [])) = Inr None"
      and "match_is_16 udb_data = Inr b"
  shows "get_instruction_format udb_data = Inr C \<longleftrightarrow> b"
  using assms
  by (auto simp add: get_instruction_format_def bindE_def Let_def split: sum.splits)

text \<open>
  Claim C1. Take a record whose top-level \<^verbatim>\<open>encoding\<close> has a \<^verbatim>\<open>match\<close> string \<open>m\<close>, and
  that has no family marker from inheritance: no \<^verbatim>\<open>format\<close>, or a \<^verbatim>\<open>format\<close> without
  \<^verbatim>\<open>$inherits\<close>, or a reference text (given directly or as the first element of a list)
  in which none of the twelve marker forms occurs. Then the classifier answers C
  exactly when \<open>m\<close> without its \<^verbatim>\<open>-\<close> characters has length 16.
\<close>

theorem compressed_iff_16_significant:
  assumes enc: "map_of udb_data ''encoding'' = Some (YDict enc)"
    and m: "map_of enc ''match'' = Some (YStr m)"
    and ref: "map_of udb_data ''format'' = None \<or>
      (\<exists>fd. map_of udb_data ''format'' = Some (YDict fd) \<and>
         (map_of fd ''$inherits'' = None \<or>
          (\<exists>p rest.
             (map_of fd ''$inherits'' = Some (YStr p) \<or>
              map_of fd ''$inherits'' = Some (YList (YStr p # rest))) \<and>
             (\<forall>x \<in> set ''RISBUJ''.
                \<not> sublist (''/'' @ [x] @ ''/'') p \<and> \<not> sublist ([x] @ ''-'') p))))"
  shows "get_instruction_format udb_data = Inr C \<longleftrightarrow>
         length (filter (\<lambda>c. c \<noteq> CHR ''-'') m) = 16"
proof -
  have "inherits_family (dict_get udb_data ''format'' (YDict [])) = Inr None"
    using ref
  proof (elim disjE exE conjE)
    assume "map_of udb_data ''format'' = None"
    then show ?thesis by (simp add: dict_get_def inherits_family_absent)
  next
    fix fd
    assume "map_of udb_data ''format'' = Some (YDict fd)" "map_of fd ''$inherits'' = None"
    then show ?thesis by (simp add: dict_get_def inherits_family_absent)
  next
    fix fd p rest
    assume f: "map_of udb_data ''format'' = Some (YDict fd)"
      and nm: "\<forall>x \<in> set ''RISBUJ''.
                \<not> sublist (''/'' @ [x] @ ''/'') p \<and> \<not> sublist ([x] @ ''-'') p"
      and "map_of fd ''$inherits'' = Some (YStr p)"
    then have "inherits_family (YDict fd) = Inr (first_marked p)"
      using inherits_family_text by blast
    with f nm show ?thesis
      by (simp only: first_marked_None[symmetric] dict_get_def option.case)
  next
    fix fd p rest
    assume f: "map_of udb_data ''format'' = Some (YDict fd)"
      and nm: "\<forall>x \<in> set ''RISBUJ''.
                \<not> sublist (''/'' @ [x] @ ''/'') p \<and> \<not> sublist ([x] @ ''-'') p"
      and "map_of fd ''$inherits'' = Some (YList (YStr p # rest))"
    then have "inherits_family (YDict fd) = Inr (first_marked p)"
      using inherits_family_text by blast
    with f nm show ?thesis
      by (simp only: first_marked_None[symmetric] dict_get_def option.case)
  qed
  then show ?thesis
    using classify_after_inherits match_is_16_text[OF enc m] by blast
qed

theorem compressed_iff_16_significant_witness:
  "get_instruction_format
     [(''name'', YStr ''c.nop''),
      (''format'', YDict [(''$inherits'', YList [YStr ''inst_subtype/C/C-none.yaml#/data''])]),
      (''encoding'', YDict [(''match'', YStr ''0000-0000-0000-0001'')])] = Inr C"
  using compressed_iff_16_significant[of
      "[(''name'', YStr ''c.nop''),
        (''format'', YDict [(''$inherits'', YList [YStr ''inst_subtype/C/C-none.yaml#/data''])]),
        (''encoding'', YDict [(''match'', YStr ''0000-0000-0000-0001'')])]"
      "[(''match'', YStr ''0000-0000-0000-0001'')]" "''0000-0000-0000-0001''"]
  by (simp add: sublist_code)

lemma classify_by_inherits:
  assumes "inherits_family (dict_get udb_data ''format'' (YDict [])) = Inr (Some f)"
  shows "get_instruction_format udb_data = Inr f"
  using assms by (simp add: get_instruction_format_def bindE_Inr)

lemma find_unique:
  assumes "x \<in> set xs" and "P x" and "\<forall>y \<in> set xs. P y \<longrightarrow> y = x"
  shows "find P xs = Some x"
  using assms
proof (induction xs)
  case Nil
  then show ?case by simp
next
  case (Cons a xs)
  show ?case
  proof (cases "P a")
    case True
    with Cons.prems(3) have "a = x" by simp
    with True show ?thesis by simp
  next
    case False
    with Cons.prems(1,2) have "x \<in> set xs" by auto
    moreover from Cons.prems(3) have "\<forall>y \<in> set xs. P y \<longrightarrow> y = x" by simp
    ultimately have "find P xs = Some x" using Cons.IH Cons.prems(2) by blast
    with False show ?thesis by simp
  qed
qed

lemma first_marked_unique:
  assumes "f \<in> set [R, I, S, B, U, J]" and "marked f p"
      and "\<forall>g \<in> set [R, I, S, B, U, J]. marked g p \<longrightarrow> g = f"
  shows "first_marked p = Some f"
  unfolding first_marked_def using assms by (rule find_unique)

text \<open>
  Claim C4. Take a record whose \<^verbatim>\<open>format\<close> is a mapping with a \<^verbatim>\<open>$inherits\<close> that is a
  reference text \<open>p\<close>, or a list whose first element is the text \<open>p\<close>. If \<open>f\<close> is the
  first family of the order R, I, S, B, U, J with a marker (\<^verbatim>\<open>/X/\<close> or \<^verbatim>\<open>X-\<close>) in \<open>p\<close>,
  the classifier answers \<open>f\<close>; in particular it answers \<open>f\<close> when \<open>f\<close> is the only one of
  the six families with a marker in \<open>p\<close>.
\<close>

theorem inherits_first_marker_wins:
  assumes fmt: "map_of udb_data ''format'' = Some (YDict fd)"
    and ref: "map_of fd ''$inherits'' = Some (YStr p) \<or>
              map_of fd ''$inherits'' = Some (YList (YStr p # rest))"
  shows "(first_marked p = Some f \<longrightarrow> get_instruction_format udb_data = Inr f) \<and>
         (f \<in> set [R, I, S, B, U, J] \<and> marked f p \<and>
            (\<forall>g \<in> set [R, I, S, B, U, J]. marked g p \<longrightarrow> g = f)
          \<longrightarrow> get_instruction_format udb_data = Inr f)"
proof -
  have "inherits_family (dict_get udb_data ''format'' (YDict [])) = Inr (first_marked p)"
    using fmt inherits_family_text[OF ref] by (simp add: dict_get_def)
  then have "first_marked p = Some f \<Longrightarrow> get_instruction_format udb_data = Inr f"
    using classify_by_inherits by simp
  then show ?thesis using first_marked_unique by blast
qed

theorem inherits_first_marker_wins_witness:
  "get_instruction_format
     [(''name'', YStr ''addi''),
      (''format'', YDict [(''$inherits'', YList [YStr ''inst_subtype/I/I-x.yaml#/data''])]),
      (''assembly'', YStr ''xd, xs1, imm'')] = Inr I"
  using inherits_first_marker_wins[of
     "[(''name'', YStr ''addi''),
       (''format'', YDict [(''$inherits'', YList [YStr ''inst_subtype/I/I-x.yaml#/data''])]),
       (''assembly'', YStr ''xd, xs1, imm'')]"
     "[(''$inherits'', YList [YStr ''inst_subtype/I/I-x.yaml#/data''])]"
     "''inst_subtype/I/I-x.yaml#/data''" "[]" I]
  by (simp add: first_marked_def marked_def sublist_code)

section \<open>The operand parser\<close>

lemma parse_part_appends:
  "parse_part f (output @ a, inp @ b) part =
     (output @ fst (parse_part f (a, b) part), inp @ snd (parse_part f (a, b) part))"
  by (simp add: parse_part_def)

lemma parse_parts_from_state:
  "foldl (parse_part f) (output, inp) parts =
     (output @ fst (foldl (parse_part f) ([], []) parts),
      inp @ snd (foldl (parse_part f) ([], []) parts))"
proof (induction parts rule: rev_induct)
  case Nil
  then show ?case by simp
next
  case (snoc part parts)
  obtain a b where ab: "foldl (parse_part f) ([], []) parts = (a, b)"
    by (cases "foldl (parse_part f) ([], []) parts")
  show ?case
    using snoc ab parse_part_appends[of f "output" a inp b part] by simp
qed

lemma parse_nonempty_string:
  "s \<noteq> [] \<Longrightarrow>
   parse_assembly_operands (YStr s) f =
     Inr (foldl (parse_part f) ([], []) (map py_strip (py_split '','' s)))"
  by (simp add: parse_assembly_operands_def)

lemma split_empty: "py_split sep [] = [[]]"
  by (simp add: py_split_def)

text \<open>
  Claim C5. A token that the vector rule and the general-register rule do not take, and
  whose lowercase form contains \<^verbatim>\<open>imm\<close> or which consists of digits only, adds exactly
  one input and no output: \<^verbatim>\<open>simm12:$imm\<close> for I and S, \<^verbatim>\<open>simm13_lsb0:$imm\<close> for B,
  \<^verbatim>\<open>uimm20:$imm\<close> for U, \<^verbatim>\<open>simm21_lsb0:$imm\<close> for J, and \<^verbatim>\<open>simm12:$imm\<close> for every
  other family. This holds for the loop body, and so for the parser: when the token
  stands between the tokens \<open>before\<close> and \<open>after\<close> of an assembly string, the outputs
  are those of \<open>before\<close> and \<open>after\<close>, and the inputs are those of \<open>before\<close>, the one
  immediate, and those of \<open>after\<close>.
\<close>

theorem immediate_token_typed_by_family:
  assumes not_vector: "\<not> (prefix ''v'' part \<and> inst_for = V)"
    and not_register:
      "\<not> (prefix ''x'' part \<or> part \<in> set [''rd'', ''rs1'', ''rs2'', ''xs1'', ''xd''])"
    and immediate: "sublist ''imm'' (py_lower part) \<or> py_isdigit part"
    and ty: "ty = (if inst_for = I \<or> inst_for = S then ''simm12''
               else if inst_for = B then ''simm13_lsb0''
               else if inst_for = U then ''uimm20''
               else if inst_for = J then ''simm21_lsb0''
               else ''simm12'')"
  shows "parse_part inst_for (output, inp) part = (output, inp @ [ty @ '':$imm'']) \<and>
         (map py_strip (py_split '','' s) = before @ part # after \<longrightarrow>
            parse_assembly_operands (YStr s) inst_for =
              Inr (fst (foldl (parse_part inst_for) ([], []) before) @
                   fst (foldl (parse_part inst_for) ([], []) after),
                   snd (foldl (parse_part inst_for) ([], []) before) @ [ty @ '':$imm''] @
                   snd (foldl (parse_part inst_for) ([], []) after)))"
proof -
  have step: "parse_part inst_for (a, b) part = (a, b @ [ty @ '':$imm''])" for a b
    using not_vector not_register immediate ty
    by (cases inst_for) (simp_all add: parse_part_def)
  have "parse_assembly_operands (YStr s) inst_for =
              Inr (fst (foldl (parse_part inst_for) ([], []) before) @
                   fst (foldl (parse_part inst_for) ([], []) after),
                   snd (foldl (parse_part inst_for) ([], []) before) @ [ty @ '':$imm''] @
                   snd (foldl (parse_part inst_for) ([], []) after))"
    if toks: "map py_strip (py_split '','' s) = before @ part # after"
  proof -
    have "part \<noteq> []"
      using immediate by (auto simp add: py_lower_def py_isdigit_def)
    have "s \<noteq> []"
    proof
      assume "s = []"
      with toks have "[py_strip []] = before @ part # after" by (simp add: split_empty)
      then have "part = py_strip []" by (cases before) simp_all
      with \<open>part \<noteq> []\<close> show False by (simp add: py_strip_def)
    qed
    obtain a b where ab: "foldl (parse_part inst_for) ([], []) before = (a, b)"
      by (cases "foldl (parse_part inst_for) ([], []) before")
    have "foldl (parse_part inst_for) ([], []) (before @ part # after) =
            foldl (parse_part inst_for) (a, b @ [ty @ '':$imm'']) after"
      using ab step by simp
    also have "\<dots> = (a @ fst (foldl (parse_part inst_for) ([], []) after),
                     (b @ [ty @ '':$imm'']) @ snd (foldl (parse_part inst_for) ([], []) after))"
      by (rule parse_parts_from_state)
    finally show ?thesis
      using \<open>s \<noteq> []\<close> toks ab by (simp add: parse_nonempty_string)
  qed
  with step show ?thesis by blast
qed

text \<open>
  Claim C10. Under family V a token that begins with \<^verbatim>\<open>v\<close> is handled by the vector
  rule alone: \<^verbatim>\<open>vd\<close> gives a vector output, a token beginning with \<^verbatim>\<open>vs\<close> a vector
  input, \<^verbatim>\<open>vm\<close> the mask input, and any other such token leaves both lists as they
  were, whatever else it contains: the parser returns what it returns for the
  assembly without that token.
\<close>

theorem vector_token_only_vector_rule:
  assumes v: "prefix ''v'' part"
  shows "parse_part V (output, inp) part =
           (if part = ''vd'' then (output @ [''VR:$vd''], inp)
            else if prefix ''vs'' part then (output, inp @ [''VR:$'' @ part])
            else if part = ''vm'' then (output, inp @ [''VMaskOp:$vm''])
            else (output, inp)) \<and>
         (part \<noteq> ''vd'' \<and> \<not> prefix ''vs'' part \<and> part \<noteq> ''vm'' \<and>
          map py_strip (py_split '','' s) = before @ part # after \<longrightarrow>
            parse_assembly_operands (YStr s) V =
              Inr (foldl (parse_part V) ([], []) (before @ after)))"
proof -
  have step: "parse_part V (a, b) part =
           (if part = ''vd'' then (a @ [''VR:$vd''], b)
            else if prefix ''vs'' part then (a, b @ [''VR:$'' @ part])
            else if part = ''vm'' then (a, b @ [''VMaskOp:$vm''])
            else (a, b))" for a b
    using v by (simp add: parse_part_def)
  have "parse_assembly_operands (YStr s) V = Inr (foldl (parse_part V) ([], []) (before @ after))"
    if other: "part \<noteq> ''vd''" "\<not> prefix ''vs'' part" "part \<noteq> ''vm''"
      and toks: "map py_strip (py_split '','' s) = before @ part # after"
  proof -
    have "part \<noteq> []" using v by auto
    have "s \<noteq> []"
    proof
      assume "s = []"
      with toks have "[py_strip []] = before @ part # after" by (simp add: split_empty)
      then have "part = py_strip []" by (cases before) simp_all
      with \<open>part \<noteq> []\<close> show False by (simp add: py_strip_def)
    qed
    have "parse_part V st part = st" for st
      using step[of "fst st" "snd st"] other by simp
    then have "foldl (parse_part V) ([], []) (before @ part # after) =
               foldl (parse_part V) ([], []) (before @ after)"
      by simp
    then show ?thesis using \<open>s \<noteq> []\<close> toks by (simp add: parse_nonempty_string)
  qed
  with step show ?thesis by blast
qed

text \<open>The definitions that split a concrete assembly string into tokens.\<close>

lemmas token_defs = py_split_def py_strip_def is_space_def

theorem immediate_token_typed_by_family_witness:
  "parse_part B ([], [''GPR:$rs1'']) ''IMM12'' = ([], [''GPR:$rs1'', ''simm13_lsb0:$imm'']) \<and>
   parse_assembly_operands (YStr ''xd, 20'') U = Inr ([''GPR:$rd''], [''uimm20:$imm''])"
proof -
  have toks: "map py_strip (py_split '','' ''xd, 20'') = [''xd''] @ ''20'' # []"
    by (simp add: token_defs)
  have a: "\<not> (prefix ''v'' ''20'' \<and> U = V)" by simp
  have b: "\<not> (prefix ''x'' ''20'' \<or> ''20'' \<in> set [''rd'', ''rs1'', ''rs2'', ''xs1'', ''xd''])"
    by simp
  have c: "sublist ''imm'' (py_lower ''20'') \<or> py_isdigit ''20''"
    by (simp add: py_isdigit_def)
  have d: "\<not> (prefix ''v'' ''IMM12'' \<and> B = V)" by simp
  have e: "\<not> (prefix ''x'' ''IMM12'' \<or> ''IMM12'' \<in> set [''rd'', ''rs1'', ''rs2'', ''xs1'', ''xd''])"
    by simp
  have f: "sublist ''imm'' (py_lower ''IMM12'') \<or> py_isdigit ''IMM12''"
    by (simp add: py_lower_def lower_char_def sublist_code)
  show ?thesis
    using immediate_token_typed_by_family[OF a b c refl, of "[]" "[]" "''xd, 20''" "[''xd'']" "[]"] toks
          immediate_token_typed_by_family[OF d e f refl, of "[]" "[''GPR:$rs1'']"]
    by (simp add: parse_part_def)
qed

theorem vector_token_only_vector_rule_witness:
  "parse_part V ([''VR:$vd''], [''VR:$vs2'']) ''vimm'' = ([''VR:$vd''], [''VR:$vs2'']) \<and>
   parse_assembly_operands (YStr ''vd, vimm, vs2, vm'') V =
     Inr ([''VR:$vd''], [''VR:$vs2'', ''VMaskOp:$vm''])"
proof -
  have toks: "map py_strip (py_split '','' ''vd, vimm, vs2, vm'') =
                [''vd''] @ ''vimm'' # [''vs2'', ''vm'']"
    by (simp add: token_defs)
  have v: "prefix ''v'' ''vimm''" by simp
  show ?thesis
    using vector_token_only_vector_rule[OF v, of "[''VR:$vd'']" "[''VR:$vs2'']" "''vd, vimm, vs2, vm''" "[''vd'']"
                 "[''vs2'', ''vm'']"] toks
    by (simp add: parse_part_def)
qed

section \<open>The renderer\<close>

lemma convert_instruction_renders_operands:
  assumes "convert_instruction udb_data = Inr t"
  shows "\<exists>f output inp tn nm af ln dc cs.
           get_instruction_format udb_data = Inr f \<and>
           instruction_operands udb_data = Inr (output, inp) \<and>
           t = instruction_text tn (py_join '', '' output) (py_join '', '' inp) nm af ln dc f cs"
  using assms
  unfolding convert_instruction_def instruction_operands_def Let_def bindE_def
  by (auto split: sum.splits prod.splits intro!: exI)

lemma operands_after_empty_parse:
  assumes "get_instruction_format udb_data = Inr f"
    and "parse_assembly_operands (dict_get udb_data ''assembly'' (YStr '''')) f = Inr ([], [])"
  shows "instruction_operands udb_data = Inr (default_operands f ([], []))"
  using assms by (simp add: instruction_operands_def bindE_Inr)

text \<open>The definitions that evaluate a concrete record.\<close>

lemmas eval_defs =
  get_instruction_format_def dict_get_def inherits_family_def bindE_Inr bindE_Inl scan_inherits_def
  has_marker_def sublist_code match_is_16_def looks_vector_def py_replace_def
  stripped_def py_strip_def is_space_def merged_encoding_def extract_encoding_info_def
  opcode_field_def parse_assembly_operands_def parse_part_def py_split_def
  py_lower_def lower_char_def py_isdigit_def
  default_operands_def asm_format_of_def symbolic_name_def variable_constraints_def
  variable_constraint_def match_constraint_def field_constraint_def truncate_description_def
  clean_description_def tablegen_name_of_def py_upper_def upper_char_def py_capitalize_def
  instruction_text_def py_str_def instruction_operands_def convert_instruction_def Let_def

text \<open>
  Claim C6. When the parser returns two empty lists for a record of family \<open>f\<close>, the
  operands that are rendered are the defaults of the family: one general-purpose output
  and two general-purpose inputs for R; one general-purpose output, one general-purpose
  input and \<^verbatim>\<open>simm12\<close> for I; one general-purpose output and no input for U and J; no
  output, two general-purpose inputs and \<^verbatim>\<open>simm12\<close> for S and B. Whatever text
  \<^verbatim>\<open>convert_instruction\<close> returns has these lists, joined with \<^verbatim>\<open>", "\<close>, as its
  \<^verbatim>\<open>outs\<close> and \<^verbatim>\<open>ins\<close> groups.
\<close>

theorem fallback_operands_by_family:
  assumes fam: "get_instruction_format udb_data = Inr f"
    and parsed: "parse_assembly_operands (dict_get udb_data ''assembly'' (YStr '''')) f = Inr ([], [])"
  shows "(f = R \<longrightarrow> instruction_operands udb_data = Inr ([''GPR:$rd''], [''GPR:$rs1'', ''GPR:$rs2''])) \<and>
         (f = I \<longrightarrow> instruction_operands udb_data = Inr ([''GPR:$rd''], [''GPR:$rs1'', ''simm12:$imm''])) \<and>
         (f = U \<or> f = J \<longrightarrow> instruction_operands udb_data = Inr ([''GPR:$rd''], [])) \<and>
         (f = S \<or> f = B \<longrightarrow>
            instruction_operands udb_data = Inr ([], [''GPR:$rs1'', ''GPR:$rs2'', ''simm12:$imm''])) \<and>
         (\<forall>t. convert_instruction udb_data = Inr t \<longrightarrow>
            (\<exists>output inp tn nm af ln dc cs.
               instruction_operands udb_data = Inr (output, inp) \<and>
               t = instruction_text tn (py_join '', '' output) (py_join '', '' inp) nm af ln dc f cs))"
proof -
  have "\<exists>output inp tn nm af ln dc cs.
               instruction_operands udb_data = Inr (output, inp) \<and>
               t = instruction_text tn (py_join '', '' output) (py_join '', '' inp) nm af ln dc f cs"
    if "convert_instruction udb_data = Inr t" for t
    using convert_instruction_renders_operands[OF that] fam by auto
  then show ?thesis
    using operands_after_empty_parse[OF fam parsed] by (simp add: default_operands_def)
qed

theorem fallback_operands_by_family_witness:
  "instruction_operands
     [(''kind'', YStr ''instruction''), (''name'', YStr ''sw''),
      (''long_name'', YStr ''Store word''),
      (''format'', YDict [(''$inherits'', YList [YStr ''inst_subtype/S/S.yaml#/data''])])]
   = Inr ([], [''GPR:$rs1'', ''GPR:$rs2'', ''simm12:$imm'']) \<and>
   convert_instruction
     [(''kind'', YStr ''instruction''), (''name'', YStr ''sw''),
      (''long_name'', YStr ''Store word''),
      (''format'', YDict [(''$inherits'', YList [YStr ''inst_subtype/S/S.yaml#/data''])])]
   = Inr (nl @ ''def SW : RISCVInst<'' @ nl @
          ''    (outs ),'' @ nl @
          ''    (ins GPR:$rs1, GPR:$rs2, simm12:$imm),'' @ nl @
          ''    '' @ dq @ ''sw'' @ dq @ '', '' @ dq @ ''$rs1, $rs2, $imm'' @ dq @ '','' @ nl @
          ''    []> {'' @ nl @
          ''  // Store word: '' @ nl @
          ''  let Format = SFormat;'' @ nl @
          ''}'')"
  using fallback_operands_by_family[of "[(''kind'', YStr ''instruction''), (''name'', YStr ''sw''),
      (''long_name'', YStr ''Store word''),
      (''format'', YDict [(''$inherits'', YList [YStr ''inst_subtype/S/S.yaml#/data''])])]" S]
  by (simp add: eval_defs)

text \<open>
  Claim C9. When the parser returns two empty lists for a record of family C or V, no
  default is substituted: the rendered operand lists are empty, and whatever text
  \<^verbatim>\<open>convert_instruction\<close> returns has an empty \<^verbatim>\<open>outs\<close> group and an empty \<^verbatim>\<open>ins\<close>
  group.
\<close>

theorem no_fallback_for_C_and_V:
  assumes fam: "get_instruction_format udb_data = Inr f"
    and cv: "f = C \<or> f = V"
    and parsed: "parse_assembly_operands (dict_get udb_data ''assembly'' (YStr '''')) f = Inr ([], [])"
  shows "instruction_operands udb_data = Inr ([], []) \<and>
         (\<forall>t. convert_instruction udb_data = Inr t \<longrightarrow>
            (\<exists>tn nm af ln dc cs. t = instruction_text tn '''' '''' nm af ln dc f cs))"
proof -
  have ops: "instruction_operands udb_data = Inr ([], [])"
    using operands_after_empty_parse[OF fam parsed] cv by (auto simp add: default_operands_def)
  have "\<exists>tn nm af ln dc cs. t = instruction_text tn '''' '''' nm af ln dc f cs"
    if "convert_instruction udb_data = Inr t" for t
    using convert_instruction_renders_operands[OF that] fam ops by auto
  with ops show ?thesis by blast
qed

theorem no_fallback_for_C_and_V_witness:
  "convert_instruction
     [(''kind'', YStr ''instruction''), (''name'', YStr ''c.nop''),
      (''encoding'', YDict [(''match'', YStr ''0000000000000001'')]),
      (''assembly'', YStr '''')]
   = Inr (nl @ ''def C_NOP : RISCVInst<'' @ nl @
          ''    (outs ),'' @ nl @
          ''    (ins ),'' @ nl @
          ''    '' @ dq @ ''c.nop'' @ dq @ '', '' @ dq @ dq @ '','' @ nl @
          ''    []> {'' @ nl @
          ''  // c.nop: '' @ nl @
          ''  let Format = CFormat;'' @ nl @
          ''  let EncodingPattern = '' @ dq @ ''0000000000000001'' @ dq @ '';'' @ nl @
          ''}'') \<and>
   instruction_operands
     [(''kind'', YStr ''instruction''), (''name'', YStr ''vop''),
      (''assembly'', YStr ''(vs1), vm.t'')] = Inr ([], [])"
  using no_fallback_for_C_and_V[of "[(''kind'', YStr ''instruction''), (''name'', YStr ''c.nop''),
      (''encoding'', YDict [(''match'', YStr ''0000000000000001'')]),
      (''assembly'', YStr '''')]" C]
        no_fallback_for_C_and_V[of "[(''kind'', YStr ''instruction''), (''name'', YStr ''vop''),
      (''assembly'', YStr ''(vs1), vm.t'')]" V]
  by (simp add: eval_defs)

section \<open>The extractor\<close>

lemma extract_top_level:
  "\<exists>top. extract_encoding_info (YDict [(''encoding'', YDict ed)]) = Inr top \<and>
         (\<forall>k. top k = (if k = ''match'' \<or> k = ''variables'' then map_of ed k else None))"
  by (cases "map_of ed ''match''"; cases "map_of ed ''variables''")
     (simp_all add: extract_encoding_info_def bindE_Inr)

lemma opcode_field_dict:
  "opcode_field (YDict od) enc field =
     Inr (case Option.bind (map_of od field) stored_value of
            Some x \<Rightarrow> enc(field \<mapsto> x) | None \<Rightarrow> enc)"
  by (simp add: opcode_field_def bindE_Inr stored_value_def split: option.splits yaml.splits)

lemma opcode_fields_dict:
  "\<exists>e. opcode_fields (YDict od) enc fs = Inr e \<and>
       (\<forall>k. e k = (if k \<in> set fs \<and> Option.bind (map_of od k) stored_value \<noteq> None
                   then Option.bind (map_of od k) stored_value else enc k))"
proof (induction fs arbitrary: enc)
  case Nil
  then show ?case by simp
next
  case (Cons field fs)
  define enc' where "enc' = (case Option.bind (map_of od field) stored_value of
            Some x \<Rightarrow> enc(field \<mapsto> x) | None \<Rightarrow> enc)"
  obtain e where e: "opcode_fields (YDict od) enc' fs = Inr e"
    and ek: "\<forall>k. e k = (if k \<in> set fs \<and> Option.bind (map_of od k) stored_value \<noteq> None
                   then Option.bind (map_of od k) stored_value else enc' k)"
    using Cons.IH[of enc'] by blast
  have "opcode_fields (YDict od) enc (field # fs) = Inr e"
    using e by (simp add: opcode_field_dict enc'_def)
  moreover have "e k = (if k \<in> set (field # fs) \<and> Option.bind (map_of od k) stored_value \<noteq> None
                   then Option.bind (map_of od k) stored_value else enc k)" for k
    using ek by (auto simp add: enc'_def split: option.splits)
  ultimately show ?case by blast
qed

lemma extract_with_opcodes:
  assumes opc: "map_of fd ''opcodes'' = Some (YDict od)"
    and fenc: "map_of fd ''encoding'' = None \<or> (\<exists>fe. map_of fd ''encoding'' = Some (YDict fe))"
  shows "\<exists>e. extract_encoding_info (YDict fd) = Inr e \<and>
           (\<forall>k. k \<noteq> ''match'' \<and> k \<noteq> ''variables'' \<longrightarrow>
              e k = (if k \<in> set [''funct7'', ''funct3'', ''funct6'', ''funct2'', ''opcode'']
                     then Option.bind (map_of od k) stored_value else None))"
proof -
  obtain e0 where e0: "opcode_fields (YDict od) Map.empty
                  [''funct7'', ''funct3'', ''funct6'', ''funct2'', ''opcode''] = Inr e0"
    and k0: "\<forall>k. e0 k = (if k \<in> set [''funct7'', ''funct3'', ''funct6'', ''funct2'', ''opcode''] \<and>
                              Option.bind (map_of od k) stored_value \<noteq> None
                   then Option.bind (map_of od k) stored_value else None)"
    using opcode_fields_dict[of od Map.empty] by blast
  from fenc show ?thesis
  proof
    assume "map_of fd ''encoding'' = None"
    then have "extract_encoding_info (YDict fd) = Inr e0"
      using opc e0 by (simp add: extract_encoding_info_def bindE_Inr)
    with k0 show ?thesis by auto
  next
    assume "\<exists>fe. map_of fd ''encoding'' = Some (YDict fe)"
    then obtain fe where fe: "map_of fd ''encoding'' = Some (YDict fe)" by blast
    have "\<exists>e. extract_encoding_info (YDict fd) = Inr e \<and>
            (\<forall>k. k \<noteq> ''match'' \<and> k \<noteq> ''variables'' \<longrightarrow> e k = e0 k)"
      using opc e0 fe
      by (cases "map_of fe ''match''"; cases "map_of fe ''variables''")
         (simp_all add: extract_encoding_info_def bindE_Inr)
    with k0 show ?thesis by auto
  qed
qed


lemma extract_without_opcodes:
  assumes opc: "map_of fd ''opcodes'' = None"
    and fenc: "map_of fd ''encoding'' = None \<or> (\<exists>fe. map_of fd ''encoding'' = Some (YDict fe))"
  shows "\<exists>e. extract_encoding_info (YDict fd) = Inr e"
  using fenc
proof
  assume "map_of fd ''encoding'' = None"
  then show ?thesis using opc by (simp add: extract_encoding_info_def bindE_Inr)
next
  assume "\<exists>fe. map_of fd ''encoding'' = Some (YDict fe)"
  then obtain fe where fe: "map_of fd ''encoding'' = Some (YDict fe)" by blast
  show ?thesis
    using opc fe
    by (cases "map_of fe ''match''"; cases "map_of fe ''variables''")
       (simp_all add: extract_encoding_info_def bindE_Inr)
qed

lemma extract_returns:
  assumes opc: "map_of fd ''opcodes'' = None \<or> (\<exists>od. map_of fd ''opcodes'' = Some (YDict od))"
    and fenc: "map_of fd ''encoding'' = None \<or> (\<exists>fe. map_of fd ''encoding'' = Some (YDict fe))"
  shows "\<exists>e. extract_encoding_info (YDict fd) = Inr e"
  using opc extract_without_opcodes[OF _ fenc] extract_with_opcodes[OF _ fenc] by blast

text \<open>
  Claim C2. Take a record whose \<^verbatim>\<open>format\<close> and top-level \<^verbatim>\<open>encoding\<close> are both mappings.
  If \<open>from_format\<close> is the encoding extracted from \<^verbatim>\<open>format\<close>, the extraction from the
  top-level \<^verbatim>\<open>encoding\<close> returns an encoding \<open>top\<close> holding its \<^verbatim>\<open>match\<close> and
  \<^verbatim>\<open>variables\<close> entries, and the encoding that is rendered is \<open>from_format\<close> overridden by
  \<open>top\<close>: under every name that \<open>top\<close> has, the merged value is the one of \<open>top\<close>.
  The merged encoding exists whenever \<^verbatim>\<open>opcodes\<close> and the \<^verbatim>\<open>encoding\<close> entry of \<^verbatim>\<open>format\<close>
  are mappings or absent.
\<close>

theorem top_level_encoding_overrides_format:
  assumes fmt: "map_of udb_data ''format'' = Some (YDict fd)"
    and enc: "map_of udb_data ''encoding'' = Some (YDict ed)"
  shows "(extract_encoding_info (YDict fd) = Inr from_format \<longrightarrow>
          (\<exists>top. extract_encoding_info (YDict [(''encoding'', YDict ed)]) = Inr top \<and>
             (\<forall>k. top k = (if k = ''match'' \<or> k = ''variables'' then map_of ed k else None)) \<and>
             merged_encoding udb_data = Inr (from_format ++ top) \<and>
             (\<forall>k. (from_format ++ top) k =
                    (case top k of Some v \<Rightarrow> Some v | None \<Rightarrow> from_format k)))) \<and>
         ((map_of fd ''opcodes'' = None \<or> (\<exists>od. map_of fd ''opcodes'' = Some (YDict od))) \<and>
          (map_of fd ''encoding'' = None \<or> (\<exists>fe. map_of fd ''encoding'' = Some (YDict fe)))
          \<longrightarrow> (\<exists>e. merged_encoding udb_data = Inr e))"
proof -
  obtain top where top: "extract_encoding_info (YDict [(''encoding'', YDict ed)]) = Inr top"
    and keys: "\<forall>k. top k = (if k = ''match'' \<or> k = ''variables'' then map_of ed k else None)"
    using extract_top_level by blast
  have merged: "merged_encoding udb_data = Inr (e ++ top)"
    if "extract_encoding_info (YDict fd) = Inr e" for e
    using fmt enc that top by (simp add: merged_encoding_def dict_get_def bindE_Inr)
  have over: "\<forall>k. (from_format ++ top) k =
                 (case top k of Some v \<Rightarrow> Some v | None \<Rightarrow> from_format k)"
    by (simp add: map_add_def)
  have "\<exists>e. merged_encoding udb_data = Inr e"
    if "map_of fd ''opcodes'' = None \<or> (\<exists>od. map_of fd ''opcodes'' = Some (YDict od))"
      and "map_of fd ''encoding'' = None \<or> (\<exists>fe. map_of fd ''encoding'' = Some (YDict fe))"
    using extract_returns[OF that] merged by blast
  then show ?thesis using top keys merged over by blast
qed

theorem top_level_encoding_overrides_format_witness:
  "bindE (merged_encoding
     [(''name'', YStr ''c.add''),
      (''format'', YDict [(''opcodes'', YDict [(''funct3'', YStr ''0b000'')]),
                          (''encoding'', YDict [(''match'', YStr ''1001----------10'')])]),
      (''encoding'', YDict [(''match'', YStr ''1001000000000010'')])])
     (\<lambda>e. Inr (e ''match'', e ''funct3''))
   = Inr (Some (YStr ''1001000000000010''), Some (YStr ''0b000''))"
proof -
  let ?fd = "[(''opcodes'', YDict [(''funct3'', YStr ''0b000'')]),
              (''encoding'', YDict [(''match'', YStr ''1001----------10'')])]"
  let ?ed = "[(''match'', YStr ''1001000000000010'')]"
  let ?r = "[(''name'', YStr ''c.add''), (''format'', YDict ?fd), (''encoding'', YDict ?ed)]"
  let ?from_format =
    "Map.empty(''funct3'' \<mapsto> YStr ''0b000'', ''match'' \<mapsto> YStr ''1001----------10'')"
  have fmt: "map_of ?r ''format'' = Some (YDict ?fd)" by simp
  have enc: "map_of ?r ''encoding'' = Some (YDict ?ed)" by simp
  have ff: "extract_encoding_info (YDict ?fd) = Inr ?from_format"
    by (simp add: extract_encoding_info_def opcode_field_def bindE_Inr)
  from top_level_encoding_overrides_format[OF fmt enc, of ?from_format] ff
  obtain top where keys:
      "\<forall>k. top k = (if k = ''match'' \<or> k = ''variables'' then map_of ?ed k else None)"
    and merged: "merged_encoding ?r = Inr (?from_format ++ top)"
    by blast
  show ?thesis
    by (simp add: merged bindE_Inr keys map_add_def)
qed

text \<open>
  Claim C3, as stated, fails: a known field that is present directly as a number is not
  taken. Here \<^verbatim>\<open>funct3\<close> is the integer that an unquoted \<^verbatim>\<open>0b000\<close> loads as.
\<close>

theorem literal_number_not_taken:
  "extracted_field (YDict [(''opcodes'', YDict [(''funct3'', YInt 0)])]) ''funct3'' = Inr None"
  by (simp add: extracted_field_def extract_encoding_info_def opcode_field_def bindE_Inr)

text \<open>
  Claim C3, amended. When \<^verbatim>\<open>opcodes\<close> is a mapping (and \<^verbatim>\<open>format\<close> has no \<^verbatim>\<open>encoding\<close>
  entry, or one that is a mapping), extraction returns without error, and for each of
  the five known names the extracted entry is the \<^verbatim>\<open>value\<close> entry when the field is a
  mapping that has one, the field itself when it is a string, and absent in every
  other case (a number, a boolean, null, a list, a mapping without \<^verbatim>\<open>value\<close>, or no
  such field). A name outside the five (and other than \<^verbatim>\<open>match\<close> and \<^verbatim>\<open>variables\<close>) has
  no entry.
\<close>

theorem opcode_field_extraction:
  assumes opc: "map_of fd ''opcodes'' = Some (YDict od)"
    and fenc: "map_of fd ''encoding'' = None \<or> (\<exists>fe. map_of fd ''encoding'' = Some (YDict fe))"
  shows "(field \<in> set [''opcode'', ''funct3'', ''funct7'', ''funct6'', ''funct2''] \<longrightarrow>
            extracted_field (YDict fd) field =
              Inr (case map_of od field of
                     Some (YDict d) \<Rightarrow> map_of d ''value''
                   | Some (YStr s) \<Rightarrow> Some (YStr s)
                   | _ \<Rightarrow> None)) \<and>
         (field \<notin> set [''opcode'', ''funct3'', ''funct7'', ''funct6'', ''funct2'',
                        ''match'', ''variables''] \<longrightarrow>
            extracted_field (YDict fd) field = Inr None)"
proof -
  obtain e where e: "extract_encoding_info (YDict fd) = Inr e"
    and ek: "\<forall>k. k \<noteq> ''match'' \<and> k \<noteq> ''variables'' \<longrightarrow>
              e k = (if k \<in> set [''funct7'', ''funct3'', ''funct6'', ''funct2'', ''opcode'']
                     then Option.bind (map_of od k) stored_value else None)"
    using extract_with_opcodes[OF opc fenc] by blast
  have ef: "extracted_field (YDict fd) field = Inr (e field)"
    using e by (simp add: extracted_field_def bindE_Inr)
  have sv: "Option.bind (map_of od field) stored_value =
          (case map_of od field of
                     Some (YDict d) \<Rightarrow> map_of d ''value''
                   | Some (YStr s) \<Rightarrow> Some (YStr s)
                   | _ \<Rightarrow> None)"
    by (simp add: stored_value_def split: option.splits yaml.splits)
  show ?thesis
    using ek ef sv by auto
qed

theorem opcode_field_extraction_witness:
  "extracted_field
     (YDict [(''opcodes'', YDict
        [(''funct7'', YDict [(''display_name'', YStr ''funct7''), (''value'', YInt 0)]),
         (''funct3'', YStr ''0b000''),
         (''opcode'', YInt 51),
         (''funct9'', YStr ''0b1'')])]) ''funct7'' = Inr (Some (YInt 0)) \<and>
   extracted_field
     (YDict [(''opcodes'', YDict
        [(''funct7'', YDict [(''display_name'', YStr ''funct7''), (''value'', YInt 0)]),
         (''funct3'', YStr ''0b000''),
         (''opcode'', YInt 51),
         (''funct9'', YStr ''0b1'')])]) ''funct3'' = Inr (Some (YStr ''0b000'')) \<and>
   extracted_field
     (YDict [(''opcodes'', YDict
        [(''funct7'', YDict [(''display_name'', YStr ''funct7''), (''value'', YInt 0)]),
         (''funct3'', YStr ''0b000''),
         (''opcode'', YInt 51),
         (''funct9'', YStr ''0b1'')])]) ''opcode'' = Inr None \<and>
   extracted_field
     (YDict [(''opcodes'', YDict
        [(''funct7'', YDict [(''display_name'', YStr ''funct7''), (''value'', YInt 0)]),
         (''funct3'', YStr ''0b000''),
         (''opcode'', YInt 51),
         (''funct9'', YStr ''0b1'')])]) ''funct9'' = Inr None"
proof -
  let ?od = "[(''funct7'', YDict [(''display_name'', YStr ''funct7''), (''value'', YInt 0)]),
         (''funct3'', YStr ''0b000''),
         (''opcode'', YInt 51),
         (''funct9'', YStr ''0b1'')]"
  let ?fd = "[(''opcodes'', YDict ?od)]"
  have opc: "map_of ?fd ''opcodes'' = Some (YDict ?od)" by simp
  have fenc: "map_of ?fd ''encoding'' = None \<or> (\<exists>fe. map_of ?fd ''encoding'' = Some (YDict fe))"
    by simp
  show ?thesis
    using opcode_field_extraction[OF opc fenc, of "''funct7''"] opcode_field_extraction[OF opc fenc, of "''funct3''"]
          opcode_field_extraction[OF opc fenc, of "''opcode''"] opcode_field_extraction[OF opc fenc, of "''funct9''"]
    by simp
qed

section \<open>The aggregator\<close>

lemma process_files_concat:
  assumes "list_all (\<lambda>f. \<not> isl (file_result f)) files"
  shows "process_files files st =
           Inr (fst st @ concat (map file_blocks files), snd st @ concat (map file_lines files))"
  using assms
proof (induction files arbitrary: st)
  case Nil
  then show ?case by simp
next
  case (Cons f files)
  from Cons.prems obtain content msgs where r: "file_result f = Inr (content, msgs)"
    by (cases "file_result f") auto
  from Cons.prems have rest: "list_all (\<lambda>f. \<not> isl (file_result f)) files" by simp
  show ?case
    using r Cons.IH[OF rest]
    by (cases content)
       (simp_all add: file_result_def[symmetric] file_blocks_def file_lines_def Let_def)
qed

lemma instruction_text_nonempty: "convert_instruction d = Inr t \<Longrightarrow> t \<noteq> []"
  using convert_instruction_renders_operands[of d t] by (auto simp add: instruction_text_def)

lemma csr_text_nonempty: "convert_csr d = Inr t \<Longrightarrow> t \<noteq> []"
  by (auto simp add: convert_csr_def bindE_def Let_def split: sum.splits)

lemma extension_text_nonempty: "convert_extension d = Inr t \<Longrightarrow> t \<noteq> []"
  by (auto simp add: convert_extension_def bindE_def Let_def split: sum.splits)

lemma rendered_nonempty:
  assumes "process_udb_file p l = Inr (Some t, msgs)"
  shows "t \<noteq> [] \<and> msgs = []"
  using assms instruction_text_nonempty csr_text_nonempty extension_text_nonempty
  by (auto simp add: process_udb_file_def bindE_def Let_def
           split: loaded.splits yaml.splits if_splits sum.splits)

lemma unknown_kind_result:
  assumes "unknown_kind f"
  shows "file_result f = Inr (None, [''Skipping '' @ file_path f @ '': unknown kind '' @
                                   [CHR 0x27] @ kind_text f @ [CHR 0x27]])"
  using assms
  by (auto simp add: unknown_kind_def file_result_def process_udb_file_def kind_text_def Let_def
           split: loaded.splits yaml.splits)


lemma renders_result:
  assumes "renders f"
  shows "file_result f = Inr (Some (rendered_text f), []) \<and> rendered_text f \<noteq> []"
proof -
  from assms obtain t msgs where r: "file_result f = Inr (Some t, msgs)"
    by (auto simp add: renders_def split: sum.splits option.splits prod.splits)
  then have "t \<noteq> [] \<and> msgs = []"
    using rendered_nonempty[of "file_path f" "contents f" t msgs] by (simp add: file_result_def)
  with r show ?thesis by (simp add: rendered_text_def)
qed

lemma unknown_kind_not_renders: "unknown_kind f \<Longrightarrow> \<not> renders f"
  using unknown_kind_result[of f] by (simp add: renders_def)

lemma blocks_of_batch:
  assumes "list_all (\<lambda>f. renders f \<or> unknown_kind f) files"
  shows "concat (map file_blocks files) =
         concat (map (\<lambda>f. [''// From '' @ file_name f, rendered_text f]) (filter renders files))"
  using assms
proof (induction files)
  case Nil
  then show ?case by simp
next
  case (Cons f files)
  then have rest: "concat (map file_blocks files) =
         concat (map (\<lambda>f. [''// From '' @ file_name f, rendered_text f]) (filter renders files))"
    by simp
  show ?case
  proof (cases "renders f")
    case True
    then have "file_blocks f = [''// From '' @ file_name f, rendered_text f]"
      using renders_result[OF True] by (simp add: file_blocks_def)
    with True rest show ?thesis by simp
  next
    case False
    with Cons.prems have u: "unknown_kind f" by simp
    then have "file_blocks f = []"
      using unknown_kind_result[OF u] by (simp add: file_blocks_def)
    with False rest show ?thesis by simp
  qed
qed

lemma lines_of_file:
  assumes "renders f \<or> unknown_kind f"
  shows "file_lines f =
           (''Processing '' @ file_name f @ ''...'') #
           (if unknown_kind f
            then [''Skipping '' @ file_path f @ '': unknown kind '' @
                  [CHR 0x27] @ kind_text f @ [CHR 0x27]]
            else [])"
proof (cases "unknown_kind f")
  case True
  then show ?thesis using unknown_kind_result[OF True] by (simp add: file_lines_def)
next
  case False
  with assms have r: "renders f" by simp
  show ?thesis using False renders_result[OF r] by (simp add: file_lines_def)
qed

lemma batch_never_raises:
  assumes "list_all (\<lambda>f. renders f \<or> unknown_kind f) files"
  shows "list_all (\<lambda>f. \<not> isl (file_result f)) files"
proof -
  have "\<not> isl (file_result f)" if "renders f \<or> unknown_kind f" for f
    using that renders_result[of f] unknown_kind_result[of f] by auto
  with assms show ?thesis by (auto simp add: list_all_iff)
qed

lemma concat_lines: "concat (map (\<lambda>c. c @ nl) (concat (map (\<lambda>f. [a f, b f]) xs))) =
   concat (map (\<lambda>f. a f @ nl @ b f @ nl) xs)"
  by (induction xs) simp_all

lemma length_pairs: "length (concat (map (\<lambda>f. [a f, b f]) xs)) div 2 = length xs"
  by (induction xs) simp_all

text \<open>
  Claim C7. In a batch whose files either render or hold a non-empty mapping with an
  unrecognised \<^verbatim>\<open>kind\<close>, let N be the number of files that render. The directory run
  returns; when N is 0 it writes nothing and prints \<^verbatim>\<open>No content found\<close>; otherwise it
  writes one file: the header, then for each rendering file, in order, its origin
  marker line and its block. It prints one progress line per file, after it one
  \<^verbatim>\<open>Skipping\<close> line for each unrecognised file, and at the end the count N.
\<close>

theorem directory_run_counts_rendered:
  assumes "list_all (\<lambda>f. renders f \<or> unknown_kind f) files"
  shows "main_directory output_file files = Inr \<lparr>
      written =
        (if filter renders files = [] then None
         else Some (output_file,
                generate_tablegen_header @
                concat (map (\<lambda>f. ''// From '' @ file_name f @ nl @ rendered_text f @ nl)
                         (filter renders files)))),
      printed =
        concat (map (\<lambda>f. (''Processing '' @ file_name f @ ''...'') #
                      (if unknown_kind f
                       then [''Skipping '' @ file_path f @ '': unknown kind '' @
                             [CHR 0x27] @ kind_text f @ [CHR 0x27]]
                       else [])) files) @
        [if filter renders files = [] then ''No content found''
         else ''Generated '' @ output_file @ '' with '' @
              str_nat (length (filter renders files)) @ '' items'']\<rparr>"
proof -
  have pf: "process_files files ([], []) =
          Inr (concat (map (\<lambda>f. [''// From '' @ file_name f, rendered_text f])
                        (filter renders files)),
               concat (map (\<lambda>f. (''Processing '' @ file_name f @ ''...'') #
                      (if unknown_kind f
                       then [''Skipping '' @ file_path f @ '': unknown kind '' @
                             [CHR 0x27] @ kind_text f @ [CHR 0x27]]
                       else [])) files))"
  proof -
    have "map file_lines files = map (\<lambda>f. (''Processing '' @ file_name f @ ''...'') #
                      (if unknown_kind f
                       then [''Skipping '' @ file_path f @ '': unknown kind '' @
                             [CHR 0x27] @ kind_text f @ [CHR 0x27]]
                       else [])) files"
      using assms lines_of_file by (intro map_cong refl) (auto simp add: list_all_iff)
    moreover have "process_files files ([], []) =
          Inr (concat (map file_blocks files), concat (map file_lines files))"
      using process_files_concat[OF batch_never_raises[OF assms], of "([], [])"] by simp
    ultimately show ?thesis
      by (simp only: blocks_of_batch[OF assms])
  qed
  show ?thesis
  proof (cases "filter renders files = []")
    case True
    then show ?thesis using pf by (simp add: main_directory_def bindE_Inr)
  next
    case False
    then have "concat (map (\<lambda>f. [''// From '' @ file_name f, rendered_text f])
                        (filter renders files)) \<noteq> []"
      by (cases "filter renders files") simp_all
    then show ?thesis
      using False pf
      by (simp add: main_directory_def bindE_Inr concat_lines length_pairs)
  qed
qed


text \<open>The definitions that evaluate a concrete batch.\<close>

lemmas batch_defs =
  file_result_def renders_def rendered_text_def unknown_kind_def kind_text_def
  process_udb_file_def convert_csr_def convert_extension_def banner_def

theorem directory_run_counts_rendered_witness:
  "main_directory ''out/RISCVGenerated.td''
     [\<lparr>file_path = ''in/add.yaml'', file_name = ''add.yaml'',
       contents = Document (YDict
         [(''kind'', YStr ''instruction''), (''name'', YStr ''add''),
          (''format'', YDict [(''$inherits'', YList [YStr ''R-type''])]),
          (''assembly'', YStr ''rd, rs1, rs2'')])\<rparr>,
      \<lparr>file_path = ''in/bad.yaml'', file_name = ''bad.yaml'',
       contents = Document (YDict [(''kind'', YStr ''unknown_kind'')])\<rparr>]
   = Inr \<lparr>
       written = Some (''out/RISCVGenerated.td'',
         generate_tablegen_header @
         ''// From add.yaml'' @ nl @
         nl @ ''def ADD : RISCVInst<'' @ nl @
         ''    (outs GPR:$rd),'' @ nl @
         ''    (ins GPR:$rs1, GPR:$rs2),'' @ nl @
         ''    '' @ dq @ ''add'' @ dq @ '', '' @ dq @ ''$rd, $rs1, $rs2'' @ dq @ '','' @ nl @
         ''    []> {'' @ nl @
         ''  // add: '' @ nl @
         ''  let Format = RFormat;'' @ nl @
         ''}'' @ nl),
       printed =
         [''Processing add.yaml...'',
          ''Processing bad.yaml...'',
          ''Skipping in/bad.yaml: unknown kind '' @ [CHR 0x27] @ ''unknown_kind'' @ [CHR 0x27],
          ''Generated out/RISCVGenerated.td with 1 items'']\<rparr>"
  using directory_run_counts_rendered[of
     "[\<lparr>file_path = ''in/add.yaml'', file_name = ''add.yaml'',
       contents = Document (YDict
         [(''kind'', YStr ''instruction''), (''name'', YStr ''add''),
          (''format'', YDict [(''$inherits'', YList [YStr ''R-type''])]),
          (''assembly'', YStr ''rd, rs1, rs2'')])\<rparr>,
      \<lparr>file_path = ''in/bad.yaml'', file_name = ''bad.yaml'',
       contents = Document (YDict [(''kind'', YStr ''unknown_kind'')])\<rparr>]"
     "''out/RISCVGenerated.td''"]
  by (simp add: batch_defs eval_defs str_nat.simps digit_char_def)







end
